theory Spec2Isabelle
  imports Complex_Main
begin

section \<open>Python values\<close>

text \<open>
  The exceptions that the modelled code can raise. \<open>BranchingNotSupported\<close> stands for
  \<^verbatim>\<open>Exception("Hardware based branching is not supported by pulse-control.")\<close>;
  \<open>IndexError\<close> and \<open>ValueError\<close> are raised by \<^verbatim>\<open>str.format\<close>. \<open>Unmodelled\<close> is
  the result of the model of \<^verbatim>\<open>str.format\<close> on a replacement field that it does not cover.
\<close>

datatype py_error = BranchingNotSupported | IndexError | ValueError | Unmodelled

text \<open>\<^verbatim>\<open>str(n)\<close> for a Python integer: decimal digits, a leading minus sign.\<close>

fun str_nat :: "nat \<Rightarrow> string" where
  "str_nat n =
     (if n < 10 then [char_of (48 + n)]
      else str_nat (n div 10) @ [char_of (48 + n mod 10)])"

declare str_nat.simps [simp del]

definition str_int :: "int \<Rightarrow> string" where
  "str_int i = (if i < 0 then CHR ''-'' # str_nat (nat (- i)) else str_nat (nat i))"

subsection \<open>\<^verbatim>\<open>str.format\<close> with positional arguments\<close>

text \<open>
  The part of \<^verbatim>\<open>str.format\<close> that the two modules use: literal text, the escapes
  \<^verbatim>\<open>{{\<close> and \<^verbatim>\<open>}}\<close>, automatically numbered fields \<^verbatim>\<open>{}\<close> and
  explicitly numbered fields \<^verbatim>\<open>{N}\<close>. The arguments are given already converted by
  \<^verbatim>\<open>str\<close>. A field whose index is not below the number of arguments raises IndexError;
  an unbalanced brace or a switch between the two numberings raises ValueError. The template
  is read from left to right, and the first failure is the result. Fields with a name, an
  attribute, a conversion or a format specification are not covered.
\<close>

datatype numbering = Unused | Automatic nat | Manual

definition is_digit :: "char \<Rightarrow> bool" where
  "is_digit c \<longleftrightarrow> c \<in> set ''0123456789''"

definition digit_val :: "char \<Rightarrow> nat" where
  "digit_val c = of_char c - 48"

definition nat_of_digits :: "string \<Rightarrow> nat" where
  "nat_of_digits ds = foldl (\<lambda>a c. 10 * a + digit_val c) 0 ds"

definition lookup_arg :: "string list \<Rightarrow> nat \<Rightarrow> py_error + string" where
  "lookup_arg args i = (if i < length args then Inr (args ! i) else Inl IndexError)"

text \<open>
  Resolving one replacement field: the text between the braces and the numbering state
  give the argument and the next numbering state.
\<close>

definition resolve_field ::
  "numbering \<Rightarrow> string list \<Rightarrow> string \<Rightarrow> py_error + (string \<times> numbering)" where
  "resolve_field k args field =
     (if field = [] then
        (case k of
           Manual \<Rightarrow> Inl ValueError
         | Unused \<Rightarrow> map_sum id (\<lambda>s. (s, Automatic 1)) (lookup_arg args 0)
         | Automatic i \<Rightarrow> map_sum id (\<lambda>s. (s, Automatic (Suc i))) (lookup_arg args i))
      else if list_all is_digit field then
        (case k of
           Automatic i \<Rightarrow> Inl ValueError
         | _ \<Rightarrow> map_sum id (\<lambda>s. (s, Manual)) (lookup_arg args (nat_of_digits field)))
      else Inl Unmodelled)"

function format_from :: "numbering \<Rightarrow> string list \<Rightarrow> string \<Rightarrow> py_error + string" where
  "format_from k args [] = Inr []"
| "format_from k args (c # cs) =
     (if c = CHR ''{'' then
        (if cs \<noteq> [] \<and> hd cs = CHR ''{'' then
           map_sum id (\<lambda>r. CHR ''{'' # r) (format_from k args (tl cs))
         else if CHR ''}'' \<notin> set cs then Inl ValueError
         else
           (case resolve_field k args (takeWhile (\<lambda>x. x \<noteq> CHR ''}'') cs) of
              Inl e \<Rightarrow> Inl e
            | Inr (s, k') \<Rightarrow>
                map_sum id (\<lambda>r. s @ r)
                  (format_from k' args (tl (dropWhile (\<lambda>x. x \<noteq> CHR ''}'') cs)))))
      else if c = CHR ''}'' then
        (if cs \<noteq> [] \<and> hd cs = CHR ''}'' then
           map_sum id (\<lambda>r. CHR ''}'' # r) (format_from k args (tl cs))
         else Inl ValueError)
      else map_sum id (\<lambda>r. c # r) (format_from k args cs))"
  by pat_completeness auto

termination
proof (relation "measure (\<lambda>(k, args, s). length s)")
  show "wf (measure (\<lambda>(k, args, s). length s))" by simp
next
  fix k :: numbering and args :: "string list" and c :: char and cs :: string
  show "((k, args, tl cs), k, args, c # cs) \<in> measure (\<lambda>(k, args, s). length s)"
    by simp
next
  fix k :: numbering and args :: "string list" and c :: char and cs :: string
    and x2 :: "string \<times> numbering" and x :: string and y :: numbering
  have "length (dropWhile (\<lambda>x. x \<noteq> CHR ''}'') cs) \<le> length cs"
    by (rule length_dropWhile_le)
  then show "((y, args, tl (dropWhile (\<lambda>x. x \<noteq> CHR ''}'') cs)), k, args, c # cs)
      \<in> measure (\<lambda>(k, args, s). length s)"
    by simp
next
  fix k :: numbering and args :: "string list" and c :: char and cs :: string
  show "((k, args, tl cs), k, args, c # cs) \<in> measure (\<lambda>(k, args, s). length s)"
    by simp
next
  fix k :: numbering and args :: "string list" and c :: char and cs :: string
  show "((k, args, cs), k, args, c # cs) \<in> measure (\<lambda>(k, args, s). length s)"
    by simp
qed

definition py_format :: "string \<Rightarrow> string list \<Rightarrow> py_error + string" where
  "py_format template args = format_from Unused args template"

section \<open>The data model\<close>

text \<open>
  The class \<^verbatim>\<open>Waveform\<close> is declared in \<^verbatim>\<open>Instructions.py\<close>. The interface uses
  its attribute \<^verbatim>\<open>duration\<close>, its method \<^verbatim>\<open>sample\<close>, and its \<^verbatim>\<open>__hash__\<close> and
  \<^verbatim>\<open>__eq__\<close>. Waveforms are values of a type \<open>'w\<close> whose equality is the value equality
  of \<^verbatim>\<open>__eq__\<close>; the three operations are parameters. Python floats are taken as exact
  real numbers.
\<close>

record 'w Waveform =
  duration :: "'w \<Rightarrow> real"
  sample :: "'w \<Rightarrow> real list \<Rightarrow> real list"
  hash :: "'w \<Rightarrow> int"

text \<open>
  Instructions: \<^verbatim>\<open>isinstance(x, EXECInstruction)\<close> is the discriminator; every other
  instruction class is the second variant.
\<close>

datatype ('w, 'o) Instruction =
  is_EXECInstruction: EXECInstruction (waveform: 'w)
  | OtherInstruction 'o

record ('w, 'o) InstructionBlock =
  instructions :: "('w, 'o) Instruction list"

text \<open>The waveform struct \<^verbatim>\<open>dict(name=..., data=dict(wf=..., marker=..., clk=...))\<close>;
  the field \<^verbatim>\<open>wf\<close> is \<open>wf_samples\<close> here.\<close>

record waveform_data =
  wf_samples :: "real list"
  marker :: "real list"
  clk :: real

record waveform_struct =
  ws_name :: string
  data :: waveform_data

text \<open>The pulse group \<^verbatim>\<open>dict(pulses=..., nrep=..., name=..., chan=..., ctrl=...)\<close>.\<close>

record 'id pulse_group =
  pulses :: "'id list"
  nrep :: "int list"
  pg_name :: string
  chan :: int
  ctrl :: string

text \<open>
  What \<^verbatim>\<open>create_pulse_group\<close> returns is a string on one path and a dictionary on the
  other.
\<close>

datatype 'id py_value = Str string | Dict "'id pulse_group"

text \<open>
  The interface object. The registration callback has an effect on the pulse-control
  backend: it takes the state \<open>'st\<close> of the backend and returns the id together with the
  new state.
\<close>

record ('id, 'st) PulseControlInterface =
  sample_rate :: real
  time_scaling :: real
  register_pulse_callback :: "waveform_struct \<Rightarrow> 'st \<Rightarrow> 'id \<times> 'st"

section \<open>\<^verbatim>\<open>create_waveform_struct\<close>\<close>

text \<open>
  \<^verbatim>\<open>numpy.linspace(start, stop, num)\<close> with the default \<^verbatim>\<open>endpoint=True\<close>: the
  step is \<open>(stop - start) / (num - 1)\<close>, the \<open>i\<close>-th sample is \<open>start + i * step\<close>, and the
  last sample is overwritten with \<open>stop\<close> when \<open>num > 1\<close>. For \<open>num = 1\<close> the result is
  \<open>[start]\<close>, for \<open>num = 0\<close> it is empty. numpy rejects a negative \<open>num\<close>; the model
  has the empty grid there. With a duration, a time scaling and a sample rate that are not
  negative, as the data model has them, \<^verbatim>\<open>create_waveform_struct\<close> calls it with
  \<open>num \<ge> 1\<close>.
\<close>

definition linspace :: "real \<Rightarrow> real \<Rightarrow> int \<Rightarrow> real list" where
  "linspace start stop num =
     (if num \<le> 0 then []
      else if num = 1 then [start]
      else (map (\<lambda>i. start + real i * ((stop - start) / real_of_int (num - 1)))
              [0..<nat num]) [nat num - 1 := stop])"

definition zeros_like :: "real list \<Rightarrow> real list" where
  "zeros_like xs = map (\<lambda>_. 0) xs"

definition sample_count :: "('id, 'st) PulseControlInterface \<Rightarrow> 'w Waveform \<Rightarrow> 'w \<Rightarrow> int" where
  "sample_count self W w = \<lfloor>duration W w * time_scaling self * sample_rate self\<rfloor> + 1"

definition sample_times :: "('id, 'st) PulseControlInterface \<Rightarrow> 'w Waveform \<Rightarrow> 'w \<Rightarrow> real list" where
  "sample_times self W w = linspace 0 (duration W w) (sample_count self W w)"

definition create_waveform_struct ::
  "('id, 'st) PulseControlInterface \<Rightarrow> 'w Waveform \<Rightarrow> 'w \<Rightarrow> string \<Rightarrow> waveform_struct" where
  "create_waveform_struct self W w name =
     (let sampled_waveform = sample W w (sample_times self W w)
      in \<lparr>ws_name = name,
          data = \<lparr>wf_samples = sampled_waveform,
                  marker = zeros_like sampled_waveform,
                  clk = sample_rate self\<rparr>\<rparr>)"

section \<open>\<^verbatim>\<open>create_pulse_group\<close>\<close>

text \<open>\<^verbatim>\<open>'wf_{}'.format(hash(waveform))\<close>\<close>

definition get_waveform_name :: "'w Waveform \<Rightarrow> 'w \<Rightarrow> string" where
  "get_waveform_name W w = ''wf_'' @ str_int (hash W w)"

text \<open>
  The state of the loop: the dictionary \<^verbatim>\<open>pulse_group\<close> and the dictionary
  \<^verbatim>\<open>registered_waveforms\<close>, both mutated in place, the state of the backend, and the
  arguments of the callback's invocations so far, in order.
\<close>

record ('w, 'id, 'st) loop_state =
  pulse_group :: "'id pulse_group"
  registered_waveforms :: "'w \<rightharpoonup> 'id"
  backend :: 'st
  calls :: "waveform_struct list"

text \<open>
  \<^verbatim>\<open>pulse_group['nrep'][-1] += 1\<close>. The statement runs only when \<^verbatim>\<open>pulses\<close> is not
  empty, and \<^verbatim>\<open>nrep\<close> is as long as \<^verbatim>\<open>pulses\<close> (lemma \<open>loop_lengths\<close> below), so
  the IndexError of an empty list is never raised.
\<close>

definition incr_last :: "int list \<Rightarrow> int list" where
  "incr_last ns = (if ns = [] then [] else butlast ns @ [last ns + 1])"

text \<open>
  The first statement of the loop body: the id of the waveform, registering it when it is
  not a key of \<^verbatim>\<open>registered_waveforms\<close>.
\<close>

definition lookup_or_register ::
  "('id, 'st) PulseControlInterface \<Rightarrow> 'w Waveform \<Rightarrow> ('w, 'id, 'st) loop_state \<Rightarrow> 'w
     \<Rightarrow> 'id \<times> ('w, 'id, 'st) loop_state" where
  "lookup_or_register self W st w =
     (case registered_waveforms st w of
        Some i \<Rightarrow> (i, st)
      | None \<Rightarrow>
          (let name = get_waveform_name W w;
               waveform_struct = create_waveform_struct self W w name;
               (i, b) = register_pulse_callback self waveform_struct (backend st)
           in (i, st\<lparr>registered_waveforms := (registered_waveforms st)(w \<mapsto> i),
                     backend := b,
                     calls := calls st @ [waveform_struct]\<rparr>)))"

definition loop_body ::
  "('id, 'st) PulseControlInterface \<Rightarrow> 'w Waveform \<Rightarrow> ('w, 'id, 'st) loop_state \<Rightarrow> 'w
     \<Rightarrow> ('w, 'id, 'st) loop_state" where
  "loop_body self W st w =
     (let (i, st1) = lookup_or_register self W st w;
          g = pulse_group st1
      in if pulses g \<noteq> [] \<and> last (pulses g) = i
         then st1\<lparr>pulse_group := g\<lparr>nrep := incr_last (nrep g)\<rparr>\<rparr>
         else st1\<lparr>pulse_group := g\<lparr>pulses := pulses g @ [i], nrep := nrep g @ [1]\<rparr>\<rparr>)"

definition initial_state :: "string \<Rightarrow> 'st \<Rightarrow> ('w, 'id, 'st) loop_state" where
  "initial_state name b =
     \<lparr>pulse_group = \<lparr>pulses = [], nrep = [], pg_name = name, chan = 1, ctrl = ''notrig''\<rparr>,
      registered_waveforms = Map.empty,
      backend = b,
      calls = []\<rparr>"

text \<open>
  The result of a call: the exception raised or the value returned, the state of the
  backend after the call, and the arguments of the callback's invocations during the call.
  The selector \<open>waveform\<close> is applied only after the check that every instruction is an
  \<open>EXECInstruction\<close>.
\<close>

definition create_pulse_group ::
  "('id, 'st) PulseControlInterface \<Rightarrow> 'w Waveform \<Rightarrow> ('w, 'o) InstructionBlock \<Rightarrow> string \<Rightarrow> 'st
     \<Rightarrow> (py_error + 'id py_value) \<times> 'st \<times> waveform_struct list" where
  "create_pulse_group self W block name b =
     (if \<not> list_all is_EXECInstruction (instructions block)
      then (Inl BranchingNotSupported, b, [])
      else
        (let waveforms = map waveform (instructions block)
         in if waveforms = [] then (Inr (Str ''''), b, [])
            else
              (let st = foldl (loop_body self W) (initial_state name b) waveforms
               in (Inr (Dict (pulse_group st)), backend st, calls st))))"

section \<open>\<^verbatim>\<open>ParameterNotInPulseTemplateException\<close>\<close>

text \<open>
  The exception object holds the parameter's name and the pulse template; the template is
  a value of any type \<open>'t\<close>.
\<close>

record 't ParameterNotInPulseTemplateException =
  exc_name :: string
  pulse_template :: 't

definition exception_str :: "'t ParameterNotInPulseTemplateException \<Rightarrow> py_error + string" where
  "exception_str self = py_format ''Parameter {1} not found'' [exc_name self]"

section \<open>Notions used in the statements\<close>

text \<open>The loop of \<^verbatim>\<open>create_pulse_group\<close> on its own, from the initial state.\<close>

definition run_loop ::
  "('id, 'st) PulseControlInterface \<Rightarrow> 'w Waveform \<Rightarrow> string \<Rightarrow> 'st \<Rightarrow> 'w list
     \<Rightarrow> ('w, 'id, 'st) loop_state" where
  "run_loop self W name b ws = foldl (loop_body self W) (initial_state name b) ws"

text \<open>The struct that the loop passes to the callback for a waveform.\<close>

definition struct_of ::
  "('id, 'st) PulseControlInterface \<Rightarrow> 'w Waveform \<Rightarrow> 'w \<Rightarrow> waveform_struct" where
  "struct_of self W w = create_waveform_struct self W w (get_waveform_name W w)"

text \<open>The id that the loop body uses for a waveform in a given state.\<close>

definition assigned_id ::
  "('id, 'st) PulseControlInterface \<Rightarrow> 'w Waveform \<Rightarrow> ('w, 'id, 'st) loop_state \<Rightarrow> 'w \<Rightarrow> 'id" where
  "assigned_id self W st w = fst (lookup_or_register self W st w)"

text \<open>The distinct elements of a list, in the order of their first occurrence.\<close>

definition first_occurrences :: "'a list \<Rightarrow> 'a list" where
  "first_occurrences ws = rev (remdups (rev ws))"

text \<open>Decoding a run-length encoding: every id repeated as often as its count says.\<close>

definition rle_decode :: "'id list \<Rightarrow> int list \<Rightarrow> 'id list" where
  "rle_decode ps ns = concat (map (\<lambda>(i, n). replicate (nat n) i) (zip ps ns))"

text \<open>The three components of the result of a call.\<close>

definition returned_group ::
  "(py_error + 'id py_value) \<times> 'st \<times> waveform_struct list \<Rightarrow> 'id pulse_group option" where
  "returned_group r = (case fst r of Inr (Dict g) \<Rightarrow> Some g | _ \<Rightarrow> None)"

definition backend_after ::
  "(py_error + 'id py_value) \<times> 'st \<times> waveform_struct list \<Rightarrow> 'st" where
  "backend_after r = fst (snd r)"

definition callback_calls ::
  "(py_error + 'id py_value) \<times> 'st \<times> waveform_struct list \<Rightarrow> waveform_struct list" where
  "callback_calls r = snd (snd r)"

subsection \<open>A concrete interface\<close>

text \<open>
  Waveforms numbered by natural numbers: waveform \<open>n\<close> is a ramp of slope \<open>n\<close> that lasts
  \<open>n\<close> time units. The interface samples at 10 Hz with the default time scaling 0.001; its
  backend is a counter, and registering a pulse returns the counter as the id.
\<close>

definition ramp_Waveform :: "nat Waveform" where
  "ramp_Waveform =
     \<lparr>duration = (\<lambda>w. real w),
      sample = (\<lambda>w ts. map (\<lambda>t. real w * t) ts),
      hash = (\<lambda>w. int w)\<rparr>"

definition counter_interface :: "(nat, nat) PulseControlInterface" where
  "counter_interface =
     \<lparr>sample_rate = 10,
      time_scaling = 1 / 1000,
      register_pulse_callback = (\<lambda>s n. (n, Suc n))\<rparr>"

section \<open>The loop\<close>

lemma first_occurrences_snoc:
  "first_occurrences (ws @ [w]) = (if w \<in> set ws then first_occurrences ws else first_occurrences ws @ [w])"
  by (simp add: first_occurrences_def)

lemma run_loop_Nil: "run_loop self W name b [] = initial_state name b"
  by (simp add: run_loop_def)

lemma run_loop_snoc: "run_loop self W name b (ws @ [w]) = loop_body self W (run_loop self W name b ws) w"
  by (simp add: run_loop_def)

lemma lookup_or_register_Some:
  "registered_waveforms st w = Some i \<Longrightarrow> lookup_or_register self W st w = (i, st)"
  by (simp add: lookup_or_register_def)

lemma lookup_or_register_None:
  "registered_waveforms st w = None \<Longrightarrow>
   lookup_or_register self W st w =
     (fst (register_pulse_callback self (struct_of self W w) (backend st)),
      st\<lparr>registered_waveforms :=
           (registered_waveforms st)(w \<mapsto> fst (register_pulse_callback self (struct_of self W w) (backend st))),
         backend := snd (register_pulse_callback self (struct_of self W w) (backend st)),
         calls := calls st @ [struct_of self W w]\<rparr>)"
  by (simp add: lookup_or_register_def struct_of_def Let_def split_def)

lemma loop_body_unfold:
  "loop_body self W st w =
     (let r = lookup_or_register self W st w; g = pulse_group (snd r)
      in if pulses g \<noteq> [] \<and> last (pulses g) = fst r
         then (snd r)\<lparr>pulse_group := g\<lparr>nrep := incr_last (nrep g)\<rparr>\<rparr>
         else (snd r)\<lparr>pulse_group := g\<lparr>pulses := pulses g @ [fst r], nrep := nrep g @ [1]\<rparr>\<rparr>)"
  by (simp add: loop_body_def split_def Let_def)

lemma registered_loop_body:
  "registered_waveforms (loop_body self W st w) =
     (case registered_waveforms st w of
        Some i \<Rightarrow> registered_waveforms st
      | None \<Rightarrow> (registered_waveforms st)(w \<mapsto> fst (register_pulse_callback self (struct_of self W w) (backend st))))"
  by (cases "registered_waveforms st w")
     (simp_all add: loop_body_unfold lookup_or_register_Some lookup_or_register_None Let_def)

lemma calls_loop_body:
  "calls (loop_body self W st w) =
     (case registered_waveforms st w of
        Some i \<Rightarrow> calls st
      | None \<Rightarrow> calls st @ [struct_of self W w])"
  by (cases "registered_waveforms st w")
     (simp_all add: loop_body_unfold lookup_or_register_Some lookup_or_register_None Let_def)

lemma backend_loop_body:
  "backend (loop_body self W st w) =
     (case registered_waveforms st w of
        Some i \<Rightarrow> backend st
      | None \<Rightarrow> snd (register_pulse_callback self (struct_of self W w) (backend st)))"
  by (cases "registered_waveforms st w")
     (simp_all add: loop_body_unfold lookup_or_register_Some lookup_or_register_None Let_def)

lemma registered_run_loop_None:
  "dom (registered_waveforms (run_loop self W name b ws)) = set ws \<Longrightarrow>
   registered_waveforms (run_loop self W name b ws) w = None \<longleftrightarrow> w \<notin> set ws"
  by (metis domIff)

lemma dom_run_loop: "dom (registered_waveforms (run_loop self W name b ws)) = set ws"
proof (induction ws rule: rev_induct)
  case Nil
  show ?case by (simp add: run_loop_Nil initial_state_def)
next
  case (snoc w ws)
  then show ?case
    by (auto simp: run_loop_snoc registered_loop_body split: option.splits)
qed

lemma calls_run_loop:
  "calls (run_loop self W name b ws) = map (struct_of self W) (first_occurrences ws)"
proof (induction ws rule: rev_induct)
  case Nil
  show ?case by (simp add: run_loop_Nil initial_state_def first_occurrences_def)
next
  case (snoc w ws)
  have "registered_waveforms (run_loop self W name b ws) w = None \<longleftrightarrow> w \<notin> set ws"
    by (rule registered_run_loop_None) (rule dom_run_loop)
  with snoc show ?case
    by (auto simp: run_loop_snoc calls_loop_body first_occurrences_snoc split: option.splits)
qed

lemma backend_run_loop:
  "backend (run_loop self W name b ws) =
     foldl (\<lambda>s w. snd (register_pulse_callback self (struct_of self W w) s)) b (first_occurrences ws)"
proof (induction ws rule: rev_induct)
  case Nil
  show ?case by (simp add: run_loop_Nil initial_state_def first_occurrences_def)
next
  case (snoc w ws)
  have "registered_waveforms (run_loop self W name b ws) w = None \<longleftrightarrow> w \<notin> set ws"
    by (rule registered_run_loop_None) (rule dom_run_loop)
  with snoc show ?case
    by (auto simp: run_loop_snoc backend_loop_body first_occurrences_snoc split: option.splits)
qed


lemma pulse_group_lookup_or_register:
  "pulse_group (snd (lookup_or_register self W st w)) = pulse_group st"
  by (cases "registered_waveforms st w")
     (simp_all add: lookup_or_register_Some lookup_or_register_None)

lemma pulse_group_loop_body:
  "pulse_group (loop_body self W st w) =
     (let g = pulse_group st; i = assigned_id self W st w
      in if pulses g \<noteq> [] \<and> last (pulses g) = i
         then g\<lparr>nrep := incr_last (nrep g)\<rparr>
         else g\<lparr>pulses := pulses g @ [i], nrep := nrep g @ [1]\<rparr>)"
  by (simp add: loop_body_unfold Let_def pulse_group_lookup_or_register assigned_id_def)

lemma registered_loop_body_self:
  "registered_waveforms (loop_body self W st w) w = Some (assigned_id self W st w)"
  by (cases "registered_waveforms st w")
     (simp_all add: registered_loop_body assigned_id_def lookup_or_register_Some
        lookup_or_register_None)

lemma registered_loop_body_other:
  "registered_waveforms st v \<noteq> None \<Longrightarrow>
   registered_waveforms (loop_body self W st w) v = registered_waveforms st v"
  by (cases "registered_waveforms st w") (auto simp: registered_loop_body)

lemma fixed_fields_run_loop:
  "pg_name (pulse_group (run_loop self W name b ws)) = name \<and>
   chan (pulse_group (run_loop self W name b ws)) = 1 \<and>
   ctrl (pulse_group (run_loop self W name b ws)) = ''notrig''"
proof (induction ws rule: rev_induct)
  case Nil
  show ?case by (simp add: run_loop_Nil initial_state_def)
next
  case (snoc w ws)
  then show ?case
    by (simp add: run_loop_snoc pulse_group_loop_body Let_def)
qed

lemma loop_lengths:
  "length (pulses (pulse_group (run_loop self W name b ws))) =
   length (nrep (pulse_group (run_loop self W name b ws)))"
proof (induction ws rule: rev_induct)
  case Nil
  show ?case by (simp add: run_loop_Nil initial_state_def)
next
  case (snoc w ws)
  then show ?case
    by (simp add: run_loop_snoc pulse_group_loop_body Let_def incr_last_def)
qed

lemma sum_list_incr_last: "ns \<noteq> [] \<Longrightarrow> sum_list (incr_last ns) = sum_list ns + 1"
proof -
  assume "ns \<noteq> []"
  then have "sum_list ns = sum_list (butlast ns @ [last ns])" by simp
  also have "\<dots> = sum_list (butlast ns) + last ns" by (simp del: append_butlast_last_id)
  finally show ?thesis using \<open>ns \<noteq> []\<close> by (simp add: incr_last_def)
qed

lemma loop_sum_nrep:
  "sum_list (nrep (pulse_group (run_loop self W name b ws))) = int (length ws)"
proof (induction ws rule: rev_induct)
  case Nil
  show ?case by (simp add: run_loop_Nil initial_state_def)
next
  case (snoc w ws)
  let ?g = "pulse_group (run_loop self W name b ws)"
  have "pulses ?g \<noteq> [] \<Longrightarrow> nrep ?g \<noteq> []"
    using loop_lengths [of self W name b ws] by auto
  with snoc show ?case
    by (simp add: run_loop_snoc pulse_group_loop_body Let_def sum_list_incr_last)
qed

lemma incr_last_snoc: "incr_last (ns @ [n]) = ns @ [n + 1]"
  by (simp add: incr_last_def)

lemma incr_last_positive:
  "\<forall>n \<in> set ns. 1 \<le> n \<Longrightarrow> \<forall>n \<in> set (incr_last ns). 1 \<le> n"
  by (cases ns rule: rev_cases) (auto simp: incr_last_snoc, simp add: incr_last_def)

lemma loop_nrep_positive:
  "\<forall>n \<in> set (nrep (pulse_group (run_loop self W name b ws))). 1 \<le> n"
proof (induction ws rule: rev_induct)
  case Nil
  show ?case by (simp add: run_loop_Nil initial_state_def)
next
  case (snoc w ws)
  from snoc incr_last_positive [OF snoc] show ?case
    by (simp add: run_loop_snoc pulse_group_loop_body Let_def)
qed

lemma loop_distinct_adj:
  "distinct_adj (pulses (pulse_group (run_loop self W name b ws)))"
proof (induction ws rule: rev_induct)
  case Nil
  show ?case by (simp add: run_loop_Nil initial_state_def)
next
  case (snoc w ws)
  then show ?case
    by (auto simp: run_loop_snoc pulse_group_loop_body Let_def distinct_adj_append_iff)
qed

lemma loop_last_pulse:
  "ws \<noteq> [] \<Longrightarrow>
   pulses (pulse_group (run_loop self W name b ws)) \<noteq> [] \<and>
   registered_waveforms (run_loop self W name b ws) (last ws) =
     Some (last (pulses (pulse_group (run_loop self W name b ws))))"
proof (induction ws rule: rev_induct)
  case Nil
  then show ?case by simp
next
  case (snoc w ws)
  show ?case
    by (simp add: run_loop_snoc pulse_group_loop_body Let_def registered_loop_body_self)
qed

lemma rle_decode_snoc:
  "length ps = length ns \<Longrightarrow>
   rle_decode (ps @ [i]) (ns @ [n]) = rle_decode ps ns @ replicate (nat n) i"
  by (simp add: rle_decode_def)

lemma rle_decode_incr_last:
  assumes "length ps = length ns" and "ps \<noteq> []" and "0 \<le> last ns"
  shows "rle_decode ps (incr_last ns) = rle_decode ps ns @ [last ps]"
proof -
  from assms obtain ps' p where ps: "ps = ps' @ [p]" by (cases ps rule: rev_cases) auto
  from assms obtain ns' n where ns: "ns = ns' @ [n]" by (cases ns rule: rev_cases) auto
  from assms ps ns have len: "length ps' = length ns'" and n: "0 \<le> n" by simp_all
  from n have "nat (n + 1) = Suc (nat n)" by simp
  with len show ?thesis
    by (simp add: ps ns incr_last_snoc rle_decode_snoc replicate_append_same)
qed

lemma loop_rle_decode:
  "map Some (rle_decode (pulses (pulse_group (run_loop self W name b ws)))
                        (nrep (pulse_group (run_loop self W name b ws)))) =
   map (registered_waveforms (run_loop self W name b ws)) ws"
proof (induction ws rule: rev_induct)
  case Nil
  show ?case by (simp add: run_loop_Nil initial_state_def rle_decode_def)
next
  case (snoc w ws)
  let ?st = "run_loop self W name b ws"
  let ?g = "pulse_group ?st"
  let ?st' = "loop_body self W ?st w"
  let ?i = "assigned_id self W ?st w"
  have len: "length (pulses ?g) = length (nrep ?g)" by (rule loop_lengths)
  have old: "map (registered_waveforms ?st') ws = map (registered_waveforms ?st) ws"
  proof (rule map_cong [OF refl])
    fix v assume "v \<in> set ws"
    then have "registered_waveforms ?st v \<noteq> None"
      using dom_run_loop [of self W name b ws] by (metis domIff)
    then show "registered_waveforms ?st' v = registered_waveforms ?st v"
      by (rule registered_loop_body_other)
  qed
  have new: "registered_waveforms ?st' w = Some ?i" by (rule registered_loop_body_self)
  have dec: "rle_decode (pulses (pulse_group ?st')) (nrep (pulse_group ?st')) =
             rle_decode (pulses ?g) (nrep ?g) @ [?i]"
  proof (cases "pulses ?g \<noteq> [] \<and> last (pulses ?g) = ?i")
    case True
    then have "nrep ?g \<noteq> []" using len by auto
    then have "last (nrep ?g) \<in> set (nrep ?g)" by simp
    then have "0 \<le> last (nrep ?g)" using loop_nrep_positive [of self W name b ws] by force
    with True len show ?thesis
      by (simp add: pulse_group_loop_body Let_def rle_decode_incr_last)
  next
    case False
    with len show ?thesis
      by (auto simp: pulse_group_loop_body Let_def rle_decode_snoc)
  qed
  show ?case
    using snoc by (simp add: run_loop_snoc dec old new)
qed

lemma loop_repeat_last:
  assumes "ws \<noteq> []"
  shows "pulse_group (run_loop self W name b (ws @ [last ws])) =
         (pulse_group (run_loop self W name b ws))
           \<lparr>nrep := incr_last (nrep (pulse_group (run_loop self W name b ws)))\<rparr>"
proof -
  let ?st = "run_loop self W name b ws"
  from loop_last_pulse [OF assms, of self W name b]
  have ne: "pulses (pulse_group ?st) \<noteq> []"
    and reg: "registered_waveforms ?st (last ws) = Some (last (pulses (pulse_group ?st)))"
    by simp_all
  from reg have "assigned_id self W ?st (last ws) = last (pulses (pulse_group ?st))"
    by (simp add: assigned_id_def lookup_or_register_Some)
  with ne show ?thesis
    by (simp add: run_loop_snoc pulse_group_loop_body Let_def)
qed

lemma create_pulse_group_branching:
  "\<not> list_all is_EXECInstruction (instructions block) \<Longrightarrow>
   create_pulse_group self W block name b = (Inl BranchingNotSupported, b, [])"
  by (simp add: create_pulse_group_def)

lemma create_pulse_group_empty:
  "instructions block = [] \<Longrightarrow> create_pulse_group self W block name b = (Inr (Str ''''), b, [])"
  by (simp add: create_pulse_group_def)

lemma create_pulse_group_run_loop:
  "list_all is_EXECInstruction (instructions block) \<Longrightarrow> instructions block \<noteq> [] \<Longrightarrow>
   create_pulse_group self W block name b =
     (Inr (Dict (pulse_group (run_loop self W name b (map waveform (instructions block))))),
      backend (run_loop self W name b (map waveform (instructions block))),
      calls (run_loop self W name b (map waveform (instructions block))))"
  by (simp add: create_pulse_group_def run_loop_def Let_def)

lemma example_ABA:
  assumes "A \<noteq> B"
    and "register_pulse_callback self (struct_of self W A) b = (idA, b1)"
    and "register_pulse_callback self (struct_of self W B) b1 = (idB, b2)"
    and "idA \<noteq> idB"
  shows "create_pulse_group self W
           \<lparr>instructions = [EXECInstruction A, EXECInstruction B, EXECInstruction A]\<rparr> name b =
         (Inr (Dict \<lparr>pulses = [idA, idB, idA], nrep = [1, 1, 1], pg_name = name, chan = 1,
                     ctrl = ''notrig''\<rparr>),
          b2, [struct_of self W A, struct_of self W B])"
  using assms
  by (simp add: create_pulse_group_def loop_body_def lookup_or_register_def initial_state_def
      incr_last_def struct_of_def Let_def)

lemma example_AAB:
  assumes "A \<noteq> B"
    and "register_pulse_callback self (struct_of self W A) b = (idA, b1)"
    and "register_pulse_callback self (struct_of self W B) b1 = (idB, b2)"
    and "idA \<noteq> idB"
  shows "create_pulse_group self W
           \<lparr>instructions = [EXECInstruction A, EXECInstruction A, EXECInstruction B]\<rparr> name b =
         (Inr (Dict \<lparr>pulses = [idA, idB], nrep = [2, 1], pg_name = name, chan = 1,
                     ctrl = ''notrig''\<rparr>),
          b2, [struct_of self W A, struct_of self W B])"
  using assms
  by (simp add: create_pulse_group_def loop_body_def lookup_or_register_def initial_state_def
      incr_last_def struct_of_def Let_def)






subsection \<open>The pulses are the ids without adjacent repetitions\<close>

lemma rle_decode_Cons:
  "rle_decode (p # ps) (n # ns) = replicate (nat n) p @ rle_decode ps ns"
  by (simp add: rle_decode_def)

lemma rle_decode_hd:
  "length ps = length ns \<Longrightarrow> ps \<noteq> [] \<Longrightarrow> \<forall>n \<in> set ns. 1 \<le> n \<Longrightarrow>
   rle_decode ps ns \<noteq> [] \<and> hd (rle_decode ps ns) = hd ps"
proof (cases ps)
  case Nil
  assume "ps \<noteq> []"
  with Nil show ?thesis by simp
next
  case (Cons p ps')
  assume len: "length ps = length ns" and pos: "\<forall>n \<in> set ns. 1 \<le> n"
  from len Cons obtain n ns' where ns: "ns = n # ns'" by (cases ns) auto
  with pos have "1 \<le> n" by simp
  then obtain k where k: "nat n = Suc k" by (cases "nat n") auto
  show ?thesis by (simp add: Cons ns rle_decode_Cons k)
qed

lemma remdups_adj_rle_decode:
  "length ps = length ns \<Longrightarrow> distinct_adj ps \<Longrightarrow> \<forall>n \<in> set ns. 1 \<le> n \<Longrightarrow>
   remdups_adj (rle_decode ps ns) = ps"
proof (induction ps ns rule: list_induct2)
  case Nil
  show ?case by (simp add: rle_decode_def)
next
  case (Cons p ps n ns)
  from Cons.prems have n: "1 \<le> n" and pos: "\<forall>n \<in> set ns. 1 \<le> n"
    and adj: "distinct_adj ps" and hd: "ps \<noteq> [] \<longrightarrow> hd ps \<noteq> p"
    by (auto simp: distinct_adj_Cons)
  from Cons.IH adj pos have IH: "remdups_adj (rle_decode ps ns) = ps" by simp
  from n have ne: "replicate (nat n) p \<noteq> []" by auto
  from n have rep: "remdups_adj (replicate (nat n) p) = [p]"
    by (simp add: remdups_adj_replicate)
  have "replicate (nat n) p = [] \<or> rle_decode ps ns = [] \<or>
        last (replicate (nat n) p) \<noteq> hd (rle_decode ps ns)"
  proof (cases "ps = []")
    case True
    then show ?thesis using Cons.hyps by (simp add: rle_decode_def)
  next
    case False
    with rle_decode_hd [OF Cons.hyps False pos] hd ne show ?thesis by simp
  qed
  then have "remdups_adj (replicate (nat n) p @ rle_decode ps ns) =
             remdups_adj (replicate (nat n) p) @ remdups_adj (rle_decode ps ns)"
    by (rule remdups_adj_append')
  then show ?case by (simp add: rle_decode_Cons rep IH)
qed

lemma loop_pulses_remdups_adj:
  "map Some (pulses (pulse_group (run_loop self W name b ws))) =
   remdups_adj (map (registered_waveforms (run_loop self W name b ws)) ws)"
proof -
  let ?g = "pulse_group (run_loop self W name b ws)"
  have "remdups_adj (map Some (rle_decode (pulses ?g) (nrep ?g))) =
        map Some (remdups_adj (rle_decode (pulses ?g) (nrep ?g)))"
    by (rule remdups_adj_map_injective) simp
  also have "\<dots> = map Some (pulses ?g)"
    by (simp add: remdups_adj_rle_decode loop_lengths loop_distinct_adj loop_nrep_positive)
  finally show ?thesis by (simp add: loop_rle_decode)
qed

section \<open>Evaluating calls\<close>

text \<open>The name of a waveform is what \<^verbatim>\<open>'wf_{}'.format(hash(waveform))\<close> returns.\<close>

lemma get_waveform_name_format:
  "py_format ''wf_{}'' [str_int (hash W w)] = Inr (get_waveform_name W w)"
  by (simp add: get_waveform_name_def py_format_def resolve_field_def lookup_arg_def)

lemma first_occurrences_distinct: "distinct (first_occurrences ws)"
  by (simp add: first_occurrences_def)

lemma first_occurrences_set: "set (first_occurrences ws) = set ws"
  by (simp add: first_occurrences_def)

lemma first_occurrences_length: "length (first_occurrences ws) = card (set ws)"
  using distinct_card [OF first_occurrences_distinct, of ws]
  by (simp add: first_occurrences_set)

lemma first_occurrences_Nil: "first_occurrences [] = []"
  by (simp add: first_occurrences_def)

lemma create_pulse_group_calls:
  assumes "list_all is_EXECInstruction (instructions block)"
  shows "callback_calls (create_pulse_group self W block name b) =
         map (struct_of self W) (first_occurrences (map waveform (instructions block)))"
proof (cases "instructions block = []")
  case True
  then show ?thesis
    by (simp add: create_pulse_group_empty callback_calls_def first_occurrences_Nil)
next
  case False
  with assms show ?thesis
    by (simp add: create_pulse_group_run_loop callback_calls_def calls_run_loop)
qed

lemma create_pulse_group_backend:
  assumes "list_all is_EXECInstruction (instructions block)"
  shows "backend_after (create_pulse_group self W block name b) =
         foldl (\<lambda>s w. snd (register_pulse_callback self (struct_of self W w) s)) b
           (first_occurrences (map waveform (instructions block)))"
proof (cases "instructions block = []")
  case True
  then show ?thesis
    by (simp add: create_pulse_group_empty backend_after_def first_occurrences_Nil)
next
  case False
  with assms show ?thesis
    by (simp add: create_pulse_group_run_loop backend_after_def backend_run_loop)
qed

lemma returned_group_run_loop:
  "list_all is_EXECInstruction (instructions block) \<Longrightarrow> instructions block \<noteq> [] \<Longrightarrow>
   returned_group (create_pulse_group self W block name b) =
     Some (pulse_group (run_loop self W name b (map waveform (instructions block))))"
  by (simp add: create_pulse_group_run_loop returned_group_def)

lemma returned_group_SomeD:
  assumes "returned_group (create_pulse_group self W block name b) = Some g"
  shows "list_all is_EXECInstruction (instructions block) \<and> instructions block \<noteq> [] \<and>
         g = pulse_group (run_loop self W name b (map waveform (instructions block)))"
proof -
  have ex: "list_all is_EXECInstruction (instructions block)"
  proof (rule ccontr)
    assume "\<not> list_all is_EXECInstruction (instructions block)"
    then have "returned_group (create_pulse_group self W block name b) = None"
      by (simp add: create_pulse_group_branching returned_group_def)
    with assms show False by simp
  qed
  have ne: "instructions block \<noteq> []"
  proof
    assume "instructions block = []"
    then have "returned_group (create_pulse_group self W block name b) = None"
      by (simp add: create_pulse_group_empty returned_group_def)
    with assms show False by simp
  qed
  from assms returned_group_run_loop [OF ex ne, of self W name b] ex ne show ?thesis by simp
qed


lemma distinct_adj_pred:
  "distinct_adj xs \<Longrightarrow> 0 < i \<Longrightarrow> i < length xs \<Longrightarrow> xs ! i \<noteq> xs ! (i - 1)"
  using distinct_adj_nth [of xs "i - 1"] by (cases i) auto

lemma counter_callback: "register_pulse_callback counter_interface s n = (n, Suc n)"
  by (simp add: counter_interface_def)

lemma counter_group_AAB:
  "create_pulse_group counter_interface ramp_Waveform
     \<lparr>instructions =
        [EXECInstruction 2, EXECInstruction 2, EXECInstruction 3 :: (nat, unit) Instruction]\<rparr>
     ''grp'' 0 =
   (Inr (Dict \<lparr>pulses = [0, 1], nrep = [2, 1], pg_name = ''grp'', chan = 1,
               ctrl = ''notrig''\<rparr>),
    2, [struct_of counter_interface ramp_Waveform 2, struct_of counter_interface ramp_Waveform 3])"
  by (simp add: example_AAB [where idA = 0 and idB = 1 and ?b1.0 = 1] counter_callback)

lemma ramp_sample_count_300: "sample_count counter_interface ramp_Waveform 300 = 4"
  by (simp add: sample_count_def counter_interface_def ramp_Waveform_def)


text \<open>
  For a block of at least one instruction, all of them \<open>EXECInstruction\<close>, a pulse group
  is returned and its repeat counts add up to the number of instructions.
\<close>

lemma create_pulse_group_sum_nrep:
  assumes "list_all is_EXECInstruction (instructions block)"
  shows "fst (create_pulse_group self W block name b) \<noteq> Inl BranchingNotSupported \<and>
         (instructions block \<noteq> [] \<longrightarrow>
            (\<exists>g. returned_group (create_pulse_group self W block name b) = Some g \<and>
                 sum_list (nrep g) = int (length (instructions block))))"
proof (cases "instructions block = []")
  case True
  then show ?thesis by (simp add: create_pulse_group_empty)
next
  case False
  with assms show ?thesis
    by (simp add: create_pulse_group_run_loop returned_group_def loop_sum_nrep)
qed

section \<open>The empty block\<close>

text \<open>
  Claim C1: for an instruction block without execute-waveform instructions,
  \<^verbatim>\<open>create_pulse_group\<close> returns an empty pulse group (empty \<^verbatim>\<open>pulses\<close> and
  \<^verbatim>\<open>nrep\<close>, the given name, the fixed channel and control fields), never an untyped
  sentinel. The code does not: for the empty block it returns the empty string, which is no
  pulse group, although the function is annotated and documented to return the pulse-group
  dictionary.
\<close>

theorem create_pulse_group_empty_block_returns_string:
  "create_pulse_group self W \<lparr>instructions = []\<rparr> name b = (Inr (Str ''''), b, []) \<and>
   returned_group (create_pulse_group self W \<lparr>instructions = []\<rparr> name b) = None"
  by (simp add: create_pulse_group_empty returned_group_def)

section \<open>The fixed fields\<close>

text \<open>
  Claim C2, as the code has it: for every block of at least one instruction, all of them
  \<open>EXECInstruction\<close>, and every name, the pulse group returned has \<^verbatim>\<open>chan\<close> equal to
  the integer 1 and \<^verbatim>\<open>ctrl\<close> equal to the string \<^verbatim>\<open>notrig\<close>.
\<close>

theorem create_pulse_group_chan_ctrl:
  assumes "list_all is_EXECInstruction (instructions block)" and "instructions block \<noteq> []"
  shows "\<exists>g. returned_group (create_pulse_group self W block name b) = Some g \<and>
             chan g = 1 \<and> ctrl g = ''notrig''"
  using assms
  by (simp add: create_pulse_group_run_loop fixed_fields_run_loop returned_group_def)

theorem create_pulse_group_chan_ctrl_witness:
  "list_all is_EXECInstruction
     (instructions \<lparr>instructions = [EXECInstruction 1, EXECInstruction 2 :: (nat, unit) Instruction]\<rparr>) \<and>
   instructions \<lparr>instructions = [EXECInstruction 1, EXECInstruction 2 :: (nat, unit) Instruction]\<rparr> \<noteq> [] \<and>
   (\<exists>g. returned_group (create_pulse_group counter_interface ramp_Waveform
           \<lparr>instructions = [EXECInstruction 1, EXECInstruction 2 :: (nat, unit) Instruction]\<rparr> ''grp'' 0) = Some g \<and>
        chan g = 1 \<and> ctrl g = ''notrig'')"
  using create_pulse_group_chan_ctrl [of "\<lparr>instructions = [EXECInstruction 1, EXECInstruction 2 :: (nat, unit) Instruction]\<rparr>"
      counter_interface ramp_Waveform "''grp''" 0]
  by simp

text \<open>
  The claim names the string \<^verbatim>\<open>no external trigger\<close> for \<^verbatim>\<open>ctrl\<close>; the group
  compiled from a block of one instruction has \<^verbatim>\<open>notrig\<close> there.
\<close>

theorem ctrl_is_notrig_counterexample:
  "list_all is_EXECInstruction [EXECInstruction (1::nat) :: (nat, unit) Instruction] \<and>
   map_option ctrl (returned_group (create_pulse_group counter_interface ramp_Waveform
       \<lparr>instructions = [EXECInstruction 1 :: (nat, unit) Instruction]\<rparr> ''grp'' 0))
     = Some ''notrig'' \<and>
   map_option ctrl (returned_group (create_pulse_group counter_interface ramp_Waveform
       \<lparr>instructions = [EXECInstruction 1 :: (nat, unit) Instruction]\<rparr> ''grp'' 0))
     \<noteq> Some ''no external trigger''"
  by (simp add: create_pulse_group_run_loop fixed_fields_run_loop returned_group_def)

section \<open>Branching is rejected\<close>

text \<open>
  Claim C3: a block with an instruction that is not an \<open>EXECInstruction\<close>, at any position
  (after any instructions \<open>pre\<close>, before any instructions \<open>post\<close>), makes
  \<^verbatim>\<open>create_pulse_group\<close> fail with the branching-not-supported error.
\<close>

theorem create_pulse_group_rejects_branching:
  assumes "instructions block = pre @ x # post" and "\<not> is_EXECInstruction x"
  shows "create_pulse_group self W block name b = (Inl BranchingNotSupported, b, [])"
  using assms by (simp add: create_pulse_group_branching)

theorem create_pulse_group_rejects_branching_witness:
  "instructions \<lparr>instructions = [EXECInstruction (1::nat), OtherInstruction (), EXECInstruction 2]\<rparr>
     = [EXECInstruction 1] @ OtherInstruction () # [EXECInstruction 2] \<and>
   \<not> is_EXECInstruction (OtherInstruction () :: (nat, unit) Instruction) \<and>
   create_pulse_group counter_interface ramp_Waveform
     \<lparr>instructions = [EXECInstruction 1, OtherInstruction (), EXECInstruction 2]\<rparr> ''grp'' 0
     = (Inl BranchingNotSupported, 0, [])"
  using create_pulse_group_rejects_branching
    [of "\<lparr>instructions = [EXECInstruction (1::nat), OtherInstruction (), EXECInstruction 2]\<rparr>"
        "[EXECInstruction 1]" "OtherInstruction ()" "[EXECInstruction 2]"
        counter_interface ramp_Waveform "''grp''" 0]
  by simp

section \<open>The repeat counts add up\<close>

text \<open>
  Claim C4: for every block of \<open>EXECInstruction\<close>s only, the call does not fail with the
  branching error and the sum of the returned \<^verbatim>\<open>nrep\<close> is the number of instructions.
  For blocks of at least one instruction this is lemma \<open>create_pulse_group_sum_nrep\<close>
  above. The empty block consists of \<open>EXECInstruction\<close>s only, and the call on it returns
  the empty string: there is no pulse group and no \<^verbatim>\<open>nrep\<close> whose sum could be 0.
\<close>

theorem create_pulse_group_empty_block_no_nrep:
  "list_all is_EXECInstruction
     (instructions \<lparr>instructions = [] :: (nat, unit) Instruction list\<rparr>) \<and>
   fst (create_pulse_group counter_interface ramp_Waveform
     \<lparr>instructions = [] :: (nat, unit) Instruction list\<rparr> ''grp'' 0) = Inr (Str []) \<and>
   map_option (\<lambda>g. sum_list (nrep g))
     (returned_group (create_pulse_group counter_interface ramp_Waveform
        \<lparr>instructions = [] :: (nat, unit) Instruction list\<rparr> ''grp'' 0)) = None"
  by (simp add: create_pulse_group_empty returned_group_def)

section \<open>One registration for each waveform\<close>

text \<open>
  Claim C5: within one call, the registration callback is invoked exactly once for each
  distinct waveform of the block, also when the waveform recurs at positions that are not
  adjacent. For a block of \<open>EXECInstruction\<close>s, the callback's invocations are, in order,
  the structs of the block's distinct waveforms in the order of their first occurrence: a
  duplicate-free list with the same elements as the block's waveforms, so there are as many
  invocations as distinct waveforms, and the backend ends in the state that these invocations
  lead to. The example: for distinct waveforms \<open>A\<close> and \<open>B\<close>, to which the callback gives
  the different ids \<open>idA\<close> and \<open>idB\<close>, the block
  \<open>A, B, A\<close> compiles to \<open>pulses = [idA, idB, idA]\<close> and \<open>nrep = [1, 1, 1]\<close> with two
  invocations, one for \<open>A\<close> and then one for \<open>B\<close>.
\<close>

theorem create_pulse_group_registers_once:
  "(list_all is_EXECInstruction (instructions (block :: ('w, 'o) InstructionBlock)) \<longrightarrow>
      callback_calls (create_pulse_group self W block name b) =
        map (struct_of self W) (first_occurrences (map waveform (instructions block))) \<and>
      distinct (first_occurrences (map waveform (instructions block))) \<and>
      set (first_occurrences (map waveform (instructions block))) =
        set (map waveform (instructions block)) \<and>
      length (callback_calls (create_pulse_group self W block name b)) =
        card (set (map waveform (instructions block))) \<and>
      backend_after (create_pulse_group self W block name b) =
        foldl (\<lambda>s w. snd (register_pulse_callback self (struct_of self W w) s)) b
          (first_occurrences (map waveform (instructions block)))) \<and>
   (A \<noteq> B \<and>
    register_pulse_callback self (struct_of self W A) b = (idA, b1) \<and>
    register_pulse_callback self (struct_of self W B) b1 = (idB, b2) \<and>
    idA \<noteq> idB \<longrightarrow>
      create_pulse_group self W
        \<lparr>instructions =
           [EXECInstruction A, EXECInstruction B, EXECInstruction A :: ('w, 'o) Instruction]\<rparr>
        name b =
      (Inr (Dict \<lparr>pulses = [idA, idB, idA], nrep = [1, 1, 1], pg_name = name, chan = 1,
                  ctrl = ''notrig''\<rparr>),
       b2, [struct_of self W A, struct_of self W B]))"
proof (intro conjI impI)
  assume ex: "list_all is_EXECInstruction (instructions block)"
  show "callback_calls (create_pulse_group self W block name b) =
        map (struct_of self W) (first_occurrences (map waveform (instructions block)))"
    using ex by (rule create_pulse_group_calls)
  then show "length (callback_calls (create_pulse_group self W block name b)) =
        card (set (map waveform (instructions block)))"
    by (simp only: length_map first_occurrences_length)
  show "backend_after (create_pulse_group self W block name b) =
        foldl (\<lambda>s w. snd (register_pulse_callback self (struct_of self W w) s)) b
          (first_occurrences (map waveform (instructions block)))"
    using ex by (rule create_pulse_group_backend)
next
  show "distinct (first_occurrences (map waveform (instructions block)))"
    by (rule first_occurrences_distinct)
  show "set (first_occurrences (map waveform (instructions block))) =
        set (map waveform (instructions block))"
    by (rule first_occurrences_set)
next
  assume "A \<noteq> B \<and>
    register_pulse_callback self (struct_of self W A) b = (idA, b1) \<and>
    register_pulse_callback self (struct_of self W B) b1 = (idB, b2) \<and>
    idA \<noteq> idB"
  then show "create_pulse_group self W
        \<lparr>instructions =
           [EXECInstruction A, EXECInstruction B, EXECInstruction A :: ('w, 'o) Instruction]\<rparr>
        name b =
      (Inr (Dict \<lparr>pulses = [idA, idB, idA], nrep = [1, 1, 1], pg_name = name, chan = 1,
                  ctrl = ''notrig''\<rparr>),
       b2, [struct_of self W A, struct_of self W B])"
    by (simp add: example_ABA)
qed

theorem create_pulse_group_registers_once_witness:
  "list_all is_EXECInstruction
     (instructions \<lparr>instructions =
        [EXECInstruction 1, EXECInstruction 2, EXECInstruction 1 :: (nat, unit) Instruction]\<rparr>) \<and>
   (1::nat) \<noteq> 2 \<and>
   register_pulse_callback counter_interface (struct_of counter_interface ramp_Waveform 1) 0
     = (0, 1) \<and>
   register_pulse_callback counter_interface (struct_of counter_interface ramp_Waveform 2) 1
     = (1, 2) \<and>
   (0::nat) \<noteq> 1 \<and>
   callback_calls (create_pulse_group counter_interface ramp_Waveform
     \<lparr>instructions =
        [EXECInstruction 1, EXECInstruction 2, EXECInstruction 1 :: (nat, unit) Instruction]\<rparr>
     ''grp'' 0) =
     [struct_of counter_interface ramp_Waveform 1, struct_of counter_interface ramp_Waveform 2] \<and>
   create_pulse_group counter_interface ramp_Waveform
     \<lparr>instructions =
        [EXECInstruction 1, EXECInstruction 2, EXECInstruction 1 :: (nat, unit) Instruction]\<rparr>
     ''grp'' 0 =
     (Inr (Dict \<lparr>pulses = [0, 1, 0], nrep = [1, 1, 1], pg_name = ''grp'', chan = 1,
                 ctrl = ''notrig''\<rparr>),
      2, [struct_of counter_interface ramp_Waveform 1, struct_of counter_interface ramp_Waveform 2])"
proof -
  have cb: "register_pulse_callback counter_interface s n = (n, Suc n)" for s n
    by (simp add: counter_interface_def)
  note t = create_pulse_group_registers_once
      [where block = "\<lparr>instructions =
          [EXECInstruction 1, EXECInstruction 2, EXECInstruction 1 :: (nat, unit) Instruction]\<rparr>"
        and self = counter_interface and W = ramp_Waveform and name = "''grp''" and b = 0
        and A = 1 and B = 2 and idA = 0 and idB = 1 and ?b1.0 = 1 and ?b2.0 = 2]
  from t have ex: "create_pulse_group counter_interface ramp_Waveform
     \<lparr>instructions =
        [EXECInstruction 1, EXECInstruction 2, EXECInstruction 1 :: (nat, unit) Instruction]\<rparr>
     ''grp'' 0 =
     (Inr (Dict \<lparr>pulses = [0, 1, 0], nrep = [1, 1, 1], pg_name = ''grp'', chan = 1,
                 ctrl = ''notrig''\<rparr>),
      2, [struct_of counter_interface ramp_Waveform 1, struct_of counter_interface ramp_Waveform 2])"
    by (simp add: cb)
  from ex show ?thesis
    by (simp add: cb callback_calls_def)
qed

section \<open>Run-length encoding\<close>

text \<open>
  Claim C6: in every pulse group that \<^verbatim>\<open>create_pulse_group\<close> returns, \<^verbatim>\<open>pulses\<close>
  and \<^verbatim>\<open>nrep\<close> have the same length and each entry of \<^verbatim>\<open>pulses\<close> differs from
  the entry before it; consecutive instructions with equal waveforms do not add an entry
  but increment the repeat count of the entry before. The counts are at least 1, and
  repeating every id as often as its count says gives back, instruction by instruction, the
  ids under which the block's waveforms are registered; \<^verbatim>\<open>pulses\<close> is this sequence
  of ids with every run of adjacent equal ids reduced to one entry, so equal waveforms side
  by side fall into one entry. Appending the last instruction of a compiled block once more leaves
  \<^verbatim>\<open>pulses\<close> as it is and adds one to the last count. The example: for distinct
  waveforms \<open>A\<close> and \<open>B\<close> with the different ids \<open>idA\<close> and \<open>idB\<close>, the block
  \<open>A, A, B\<close> compiles to \<open>pulses = [idA, idB]\<close> and \<open>nrep = [2, 1]\<close>.
\<close>

theorem create_pulse_group_run_length:
  "(returned_group (create_pulse_group self W (block :: ('w, 'o) InstructionBlock) name b) = Some g \<longrightarrow>
      length (pulses g) = length (nrep g) \<and>
      (\<forall>i. 0 < i \<and> i < length (pulses g) \<longrightarrow> pulses g ! i \<noteq> pulses g ! (i - 1)) \<and>
      (\<forall>n \<in> set (nrep g). 1 \<le> n) \<and>
      map Some (rle_decode (pulses g) (nrep g)) =
        map (registered_waveforms (run_loop self W name b (map waveform (instructions block))))
          (map waveform (instructions block)) \<and>
      map Some (pulses g) =
        remdups_adj
          (map (registered_waveforms (run_loop self W name b (map waveform (instructions block))))
             (map waveform (instructions block)))) \<and>
   (returned_group (create_pulse_group self W \<lparr>instructions = ins\<rparr> name b) = Some g0 \<longrightarrow>
      returned_group (create_pulse_group self W
          \<lparr>instructions = ins @ [last ins :: ('w, 'o) Instruction]\<rparr> name b) =
        Some (g0\<lparr>nrep := butlast (nrep g0) @ [last (nrep g0) + 1]\<rparr>)) \<and>
   (A \<noteq> B \<and>
    register_pulse_callback self (struct_of self W A) b = (idA, b1) \<and>
    register_pulse_callback self (struct_of self W B) b1 = (idB, b2) \<and>
    idA \<noteq> idB \<longrightarrow>
      create_pulse_group self W
        \<lparr>instructions =
           [EXECInstruction A, EXECInstruction A, EXECInstruction B :: ('w, 'o) Instruction]\<rparr>
        name b =
      (Inr (Dict \<lparr>pulses = [idA, idB], nrep = [2, 1], pg_name = name, chan = 1,
                  ctrl = ''notrig''\<rparr>),
       b2, [struct_of self W A, struct_of self W B]))"
proof (intro conjI impI allI)
  assume r: "returned_group (create_pulse_group self W block name b) = Some g"
  let ?ws = "map waveform (instructions block)"
  from returned_group_SomeD [OF r] have g: "g = pulse_group (run_loop self W name b ?ws)"
    by simp
  show "length (pulses g) = length (nrep g)"
    unfolding g by (rule loop_lengths)
  show "\<forall>n \<in> set (nrep g). 1 \<le> n"
    unfolding g by (rule loop_nrep_positive)
  show "map Some (rle_decode (pulses g) (nrep g)) =
        map (registered_waveforms (run_loop self W name b ?ws)) ?ws"
    unfolding g by (rule loop_rle_decode)
  show "map Some (pulses g) =
        remdups_adj (map (registered_waveforms (run_loop self W name b ?ws)) ?ws)"
    unfolding g by (rule loop_pulses_remdups_adj)
  fix i assume "0 < i \<and> i < length (pulses g)"
  then have "0 < i" and "i < length (pulses g)" by simp_all
  moreover have "distinct_adj (pulses g)"
    unfolding g by (rule loop_distinct_adj)
  ultimately show "pulses g ! i \<noteq> pulses g ! (i - 1)"
    by (rule distinct_adj_pred [rotated])
next
  assume r: "returned_group (create_pulse_group self W \<lparr>instructions = ins\<rparr> name b) = Some g0"
  let ?ws = "map waveform ins"
  from returned_group_SomeD [OF r]
  have ex: "list_all is_EXECInstruction ins" and ne: "ins \<noteq> []"
    and g0: "g0 = pulse_group (run_loop self W name b ?ws)"
    by simp_all
  from ne have last_in: "last ins \<in> set ins" by simp
  with ex have ex': "list_all is_EXECInstruction (ins @ [last ins])"
    by (simp add: list_all_iff)
  from ne have ws: "map waveform (ins @ [last ins]) = ?ws @ [last ?ws]"
    by (simp add: last_map)
  from ne have ne': "?ws \<noteq> []" by simp
  have "nrep g0 \<noteq> []"
    using loop_last_pulse [OF ne', of self W name b] loop_lengths [of self W name b ?ws]
    unfolding g0 by auto
  then have incr: "incr_last (nrep g0) = butlast (nrep g0) @ [last (nrep g0) + 1]"
    by (simp add: incr_last_def)
  have "returned_group (create_pulse_group self W \<lparr>instructions = ins @ [last ins]\<rparr> name b) =
        Some (pulse_group (run_loop self W name b (?ws @ [last ?ws])))"
    using returned_group_run_loop [of "\<lparr>instructions = ins @ [last ins]\<rparr>" self W name b] ex' ws
    by simp
  also have "pulse_group (run_loop self W name b (?ws @ [last ?ws])) =
        g0\<lparr>nrep := incr_last (nrep g0)\<rparr>"
    unfolding g0 by (rule loop_repeat_last [OF ne'])
  finally show "returned_group (create_pulse_group self W \<lparr>instructions = ins @ [last ins]\<rparr> name b) =
        Some (g0\<lparr>nrep := butlast (nrep g0) @ [last (nrep g0) + 1]\<rparr>)"
    by (simp add: incr)
next
  assume "A \<noteq> B \<and>
    register_pulse_callback self (struct_of self W A) b = (idA, b1) \<and>
    register_pulse_callback self (struct_of self W B) b1 = (idB, b2) \<and>
    idA \<noteq> idB"
  then show "create_pulse_group self W
        \<lparr>instructions =
           [EXECInstruction A, EXECInstruction A, EXECInstruction B :: ('w, 'o) Instruction]\<rparr>
        name b =
      (Inr (Dict \<lparr>pulses = [idA, idB], nrep = [2, 1], pg_name = name, chan = 1,
                  ctrl = ''notrig''\<rparr>),
       b2, [struct_of self W A, struct_of self W B])"
    by (simp add: example_AAB)
qed

theorem create_pulse_group_run_length_witness:
  "returned_group (create_pulse_group counter_interface ramp_Waveform
     \<lparr>instructions =
        [EXECInstruction 2, EXECInstruction 2, EXECInstruction 3 :: (nat, unit) Instruction]\<rparr>
     ''grp'' 0) =
     Some \<lparr>pulses = [0, 1], nrep = [2, 1], pg_name = ''grp'', chan = 1, ctrl = ''notrig''\<rparr> \<and>
   length [0, 1 :: nat] = length [2, 1 :: int] \<and>
   [0, 1 :: nat] ! 1 \<noteq> [0, 1] ! (1 - 1) \<and>
   rle_decode [0, 1 :: nat] [2, 1] = [0, 0, 1] \<and>
   returned_group (create_pulse_group counter_interface ramp_Waveform
     \<lparr>instructions = [EXECInstruction 2 :: (nat, unit) Instruction]\<rparr> ''grp'' 0) =
     Some \<lparr>pulses = [0], nrep = [1], pg_name = ''grp'', chan = 1, ctrl = ''notrig''\<rparr> \<and>
   returned_group (create_pulse_group counter_interface ramp_Waveform
     \<lparr>instructions = [EXECInstruction 2, EXECInstruction 2 :: (nat, unit) Instruction]\<rparr> ''grp'' 0) =
     Some \<lparr>pulses = [0], nrep = [2], pg_name = ''grp'', chan = 1, ctrl = ''notrig''\<rparr> \<and>
   (2::nat) \<noteq> 3 \<and>
   register_pulse_callback counter_interface (struct_of counter_interface ramp_Waveform 2) 0
     = (0, 1) \<and>
   register_pulse_callback counter_interface (struct_of counter_interface ramp_Waveform 3) 1
     = (1, 2) \<and>
   (0::nat) \<noteq> 1 \<and>
   create_pulse_group counter_interface ramp_Waveform
     \<lparr>instructions =
        [EXECInstruction 2, EXECInstruction 2, EXECInstruction 3 :: (nat, unit) Instruction]\<rparr>
     ''grp'' 0 =
     (Inr (Dict \<lparr>pulses = [0, 1], nrep = [2, 1], pg_name = ''grp'', chan = 1,
                 ctrl = ''notrig''\<rparr>),
      2, [struct_of counter_interface ramp_Waveform 2, struct_of counter_interface ramp_Waveform 3])"
proof -
  let ?G = "\<lparr>pulses = [0, 1 :: nat], nrep = [2, 1], pg_name = ''grp'', chan = 1, ctrl = ''notrig''\<rparr>"
  let ?H = "\<lparr>pulses = [0 :: nat], nrep = [1], pg_name = ''grp'', chan = 1, ctrl = ''notrig''\<rparr>"
  have r: "returned_group (create_pulse_group counter_interface ramp_Waveform
     \<lparr>instructions =
        [EXECInstruction 2, EXECInstruction 2, EXECInstruction 3 :: (nat, unit) Instruction]\<rparr>
     ''grp'' 0) = Some ?G"
    by (simp add: counter_group_AAB returned_group_def)
  have r0: "returned_group (create_pulse_group counter_interface ramp_Waveform
     \<lparr>instructions = [EXECInstruction 2 :: (nat, unit) Instruction]\<rparr> ''grp'' 0) = Some ?H"
    by (simp add: returned_group_def create_pulse_group_def loop_body_def
        lookup_or_register_def initial_state_def Let_def counter_callback)
  note t = create_pulse_group_run_length
      [where block = "\<lparr>instructions =
          [EXECInstruction 2, EXECInstruction 2, EXECInstruction 3 :: (nat, unit) Instruction]\<rparr>"
        and self = counter_interface and W = ramp_Waveform and name = "''grp''" and b = 0
        and g = ?G and ins = "[EXECInstruction 2]" and ?g0.0 = ?H
        and A = 2 and B = 3 and idA = 0 and idB = 1 and ?b1.0 = 1 and ?b2.0 = 2]
  from t r have "0 < (1::nat) \<and> 1 < length [0, 1 :: nat] \<longrightarrow> [0, 1 :: nat] ! 1 \<noteq> [0, 1] ! (1 - 1)"
    by simp
  then have adj: "[0, 1 :: nat] ! 1 \<noteq> [0, 1] ! (1 - 1)"
    by simp
  have dec: "rle_decode [0, 1 :: nat] [2, 1] = [0, 0, 1]"
    by (simp add: rle_decode_def numeral_eq_Suc)
  from t r r0 adj dec show ?thesis
    by (simp add: counter_callback)
qed

section \<open>The sample grid\<close>




section \<open>No partial success\<close>



section \<open>The waveform struct\<close>

text \<open>
  Claim C9: \<^verbatim>\<open>create_waveform_struct\<close> is deterministic. The struct is a function of
  the waveform, the name, the sample rate and the time scaling alone: it has the given name,
  the amplitudes sampled on the grid as \<^verbatim>\<open>wf\<close>, a marker of zeros of the same length,
  and the sample rate as \<^verbatim>\<open>clk\<close>; the callback and the backend have no part in it.
\<close>

theorem create_waveform_struct_deterministic:
  "create_waveform_struct self W w name =
     \<lparr>ws_name = name,
      data = \<lparr>wf_samples = sample W w (sample_times self W w),
              marker = replicate (length (sample W w (sample_times self W w))) 0,
              clk = sample_rate self\<rparr>\<rparr> \<and>
   length (marker (data (create_waveform_struct self W w name))) =
     length (wf_samples (data (create_waveform_struct self W w name))) \<and>
   create_waveform_struct (self\<lparr>register_pulse_callback := cb\<rparr>) W w name =
     create_waveform_struct self W w name"
  by (simp add: create_waveform_struct_def Let_def zeros_like_def sample_times_def
      sample_count_def map_replicate_const)

theorem create_waveform_struct_deterministic_witness:
  "create_waveform_struct counter_interface ramp_Waveform 300 ''wf_300'' =
     \<lparr>ws_name = ''wf_300'',
      data = \<lparr>wf_samples = [0, 30000, 60000, 90000], marker = [0, 0, 0, 0], clk = 10\<rparr>\<rparr>"
proof -
  have u4: "[0..<4] = [0, 1, 2, 3 :: nat]"
    by (simp add: upt_rec)
  have d: "duration ramp_Waveform 300 = 300"
    by (simp add: ramp_Waveform_def)
  have g: "sample_times counter_interface ramp_Waveform 300 = [0, 100, 200, 300]"
    by (simp add: sample_times_def ramp_sample_count_300 linspace_def d u4)
  have s: "sample ramp_Waveform 300 [0, 100, 200, 300] = [0, 30000, 60000, 90000]"
    by (simp add: ramp_Waveform_def)
  have r: "sample_rate counter_interface = 10"
    by (simp add: counter_interface_def)
  have z: "replicate 4 (0::real) = [0, 0, 0, 0]"
    by (simp add: numeral_eq_Suc)
  from create_waveform_struct_deterministic
    [where self = counter_interface and W = ramp_Waveform and w = 300 and name = "''wf_300''"]
  show ?thesis
    by (simp add: g s r z)
qed

section \<open>The message of the exception\<close>

text \<open>
  Claim C10: for every parameter name and pulse template, \<^verbatim>\<open>__str__\<close> of
  \<^verbatim>\<open>ParameterNotInPulseTemplateException\<close> returns no message. The template has the
  replacement field \<^verbatim>\<open>{1}\<close> and \<^verbatim>\<open>format\<close> gets one argument, so the index 1 is
  out of range and the conversion raises IndexError.
\<close>

theorem exception_str_raises_IndexError: "exception_str self = Inl IndexError"
  by (simp add: exception_str_def py_format_def resolve_field_def lookup_arg_def is_digit_def
      nat_of_digits_def digit_val_def)

theorem exception_str_raises_IndexError_witness:
  "exception_str \<lparr>exc_name = ''amplitude'', pulse_template = ()\<rparr> = Inl IndexError"
  using exception_str_raises_IndexError [of "\<lparr>exc_name = ''amplitude'', pulse_template = ()\<rparr>"]
  by simp

end
